theory Spec2Isabelle
  imports Complex_Main
begin

text \<open>
  The Goodmem client for Google ADK agents: an embedding of the HTTP client
  \<^verbatim>\<open>goodmem_adk/client.py\<close> and of the space-resolution helper the adapters build on
  it, with the properties of the operations that the specification states.
\<close>

section \<open>Python values\<close>

text \<open>
  The client of \<^verbatim>\<open>goodmem_adk/client.py\<close> moves JSON documents between Python
  and an HTTP service. A JSON document is what \<^verbatim>\<open>json.loads\<close> and
  \<^verbatim>\<open>response.json()\<close> hand to the code: \<^verbatim>\<open>None\<close>, a bool, an int, a float,
  a str, a list or a dict. A dict is kept as an association list in insertion order
  (a lookup takes the first entry of a key); the dicts the code builds have distinct
  literal keys. A Python \<^verbatim>\<open>str\<close> is a
  \<^typ>\<open>string\<close> whose characters are the code points below 256. A finite float is
  carried by its exact value; none of the code below computes with one.
\<close>

datatype json =
    JNull
  | JBool bool
  | JInt int
  | JFloat rat
  | JStr string
  | JArr "json list"
  | JObj "(string \<times> json) list"

type_synonym bytes = "char list"

text \<open>
  What \<^verbatim>\<open>json.loads\<close> and \<^verbatim>\<open>response.json()\<close> raise when they do not return
  a document: \<^verbatim>\<open>json.JSONDecodeError\<close> for a text that is not JSON,
  \<^verbatim>\<open>UnicodeDecodeError\<close> for a body whose bytes are not valid UTF-8 (or UTF-16,
  UTF-32), \<^verbatim>\<open>RecursionError\<close> for a document nested too deeply, a plain
  \<^verbatim>\<open>ValueError\<close> for an integer literal beyond the digit limit; any other exception,
  of a class that derives from none of these, is carried by the name of its class.
\<close>

datatype json_exception =
    JSONDecodeError
  | UnicodeDecodeError
  | RecursionError
  | IntDigitsValueError
  | OtherException string

text \<open>
  An HTTP response, as the client reads it: \<^verbatim>\<open>status_code\<close>, \<^verbatim>\<open>text\<close> and
  \<^verbatim>\<open>json()\<close>; \<open>resp_json\<close> is what \<^verbatim>\<open>json()\<close> does on the body: the document
  it returns or the exception it raises.
\<close>

record http_response =
  resp_status :: int
  resp_text :: string
  resp_json :: "json_exception + json"

text \<open>
  The exceptions the client can leave with, by their Python names.
  \<^verbatim>\<open>httpx.HTTPStatusError\<close> carries the response it was raised for;
  \<open>JsonException\<close> is an exception that came out of the JSON decoder.
\<close>

datatype error =
    RequestError
  | HTTPStatusError http_response
  | JsonException json_exception
  | AttributeError
  | TypeError
  | KeyError
  | IndexError
  | ValueError string

text \<open>
  Truthiness (\<^verbatim>\<open>if x:\<close>, \<^verbatim>\<open>not x\<close>, \<^verbatim>\<open>a or b\<close>) of a JSON value.
\<close>

fun truthy :: "json \<Rightarrow> bool" where
  "truthy JNull = False"
| "truthy (JBool b) = b"
| "truthy (JInt i) = (i \<noteq> 0)"
| "truthy (JFloat r) = (r \<noteq> 0)"
| "truthy (JStr s) = (s \<noteq> [])"
| "truthy (JArr xs) = (xs \<noteq> [])"
| "truthy (JObj kvs) = (kvs \<noteq> [])"

text \<open>
  \<^verbatim>\<open>d.get(k)\<close> and \<^verbatim>\<open>d.get(k, default)\<close>. Only a dict has the method; on any
  other JSON value the attribute lookup raises \<^verbatim>\<open>AttributeError\<close>.
\<close>

definition dict_get :: "(string \<times> json) list \<Rightarrow> string \<Rightarrow> json \<Rightarrow> json" where
  "dict_get kvs k d = (case map_of kvs k of Some v \<Rightarrow> v | None \<Rightarrow> d)"

definition py_get :: "json \<Rightarrow> string \<Rightarrow> json \<Rightarrow> error + json" where
  "py_get j k d = (case j of JObj kvs \<Rightarrow> Inr (dict_get kvs k d) | _ \<Rightarrow> Inl AttributeError)"

text \<open>
  Iterating a value (\<^verbatim>\<open>for e in v\<close>, \<^verbatim>\<open>list.extend(v)\<close>): a list yields its
  elements, a dict its keys, a str its characters; the other values are not iterable
  (\<^verbatim>\<open>TypeError\<close>).
\<close>

definition py_iter :: "json \<Rightarrow> error + json list" where
  "py_iter j = (case j of
      JArr xs \<Rightarrow> Inr xs
    | JObj kvs \<Rightarrow> Inr (map (\<lambda>kv. JStr (fst kv)) kvs)
    | JStr s \<Rightarrow> Inr (map (\<lambda>c. JStr [c]) s)
    | _ \<Rightarrow> Inl TypeError)"

text \<open>
  \<^verbatim>\<open>v[0]\<close>: the first element of a list, the first character of a str; a dict
  with string keys has no key \<^verbatim>\<open>0\<close>; the other values are not subscriptable.
\<close>

definition py_first :: "json \<Rightarrow> error + json" where
  "py_first j = (case j of
      JArr xs \<Rightarrow> (case xs of [] \<Rightarrow> Inl IndexError | x # _ \<Rightarrow> Inr x)
    | JStr s \<Rightarrow> (case s of [] \<Rightarrow> Inl IndexError | c # _ \<Rightarrow> Inr (JStr [c]))
    | JObj kvs \<Rightarrow> Inl KeyError
    | _ \<Rightarrow> Inl TypeError)"

text \<open>
  \<^verbatim>\<open>k in v\<close> for a str \<open>k\<close>: a key of a dict, an element of a list, a substring of
  a str; on \<^verbatim>\<open>None\<close>, a bool or a number the test raises \<^verbatim>\<open>TypeError\<close>.
\<close>

fun substring :: "string \<Rightarrow> string \<Rightarrow> bool" where
  "substring k [] = (k = [])"
| "substring k (c # cs) = (take (length k) (c # cs) = k \<or> substring k cs)"

definition py_in :: "string \<Rightarrow> json \<Rightarrow> error + bool" where
  "py_in k j = (case j of
      JObj kvs \<Rightarrow> Inr (k \<in> fst ` set kvs)
    | JArr xs \<Rightarrow> Inr (JStr k \<in> set xs)
    | JStr s \<Rightarrow> Inr (substring k s)
    | _ \<Rightarrow> Inl TypeError)"

text \<open>
  \<^verbatim>\<open>str.strip()\<close> removes the leading and trailing white space; among the code points
  below 256 Python counts the ones of \<open>isspace\<close> as white space. \<^verbatim>\<open>str.split("\n")\<close>
  cuts at every line feed and always returns at least one piece.
\<close>

definition isspace :: "char \<Rightarrow> bool" where
  "isspace c = ((of_char c :: nat) \<in> {9, 10, 11, 12, 13, 28, 29, 30, 31, 32, 133, 160})"

definition lstrip :: "string \<Rightarrow> string" where
  "lstrip s = dropWhile isspace s"

definition rstrip :: "string \<Rightarrow> string" where
  "rstrip s = rev (dropWhile isspace (rev s))"

definition strip :: "string \<Rightarrow> string" where
  "strip s = rstrip (lstrip s)"

fun split_from :: "string \<Rightarrow> string \<Rightarrow> string list" where
  "split_from piece [] = [piece]"
| "split_from piece (c # cs) =
     (if c = CHR 0x0A then piece # split_from [] cs else split_from (piece @ [c]) cs)"

definition split_lines :: "string \<Rightarrow> string list" where
  "split_lines s = split_from [] s"

text \<open>
  \<^verbatim>\<open>urllib.parse.quote(s, safe="")\<close>: letters, digits and \<^verbatim>\<open>_.-~\<close> stay, every
  other character is percent-encoded byte by byte from its UTF-8 encoding (two bytes for a
  code point from 128 to 255).
\<close>

definition unreserved :: "char \<Rightarrow> bool" where
  "unreserved c = (c \<in> set (''ABCDEFGHIJKLMNOPQRSTUVWXYZ'' @ ''abcdefghijklmnopqrstuvwxyz''
                           @ ''0123456789'' @ ''_.-~''))"

definition percent :: "nat \<Rightarrow> string" where
  "percent n = [CHR ''%'', ''0123456789ABCDEF'' ! (n div 16), ''0123456789ABCDEF'' ! (n mod 16)]"

definition quote_char :: "char \<Rightarrow> string" where
  "quote_char c =
     (let n = (of_char c :: nat) in
      if unreserved c then [c]
      else if n < 128 then percent n
      else percent (192 + n div 64) @ percent (128 + n mod 64))"

definition quote :: "string \<Rightarrow> string" where
  "quote s = concat (map quote_char s)"

section \<open>The HTTP transport\<close>

text \<open>
  \<^verbatim>\<open>self._client\<close> is an \<^verbatim>\<open>httpx.Client\<close>. A request records what the call
  passes: the method, the URL, and the \<^verbatim>\<open>params\<close>, \<^verbatim>\<open>json\<close>, \<^verbatim>\<open>data\<close>,
  \<^verbatim>\<open>files\<close>, \<^verbatim>\<open>headers\<close> and \<^verbatim>\<open>timeout\<close> arguments (the timeout in
  seconds). The headers are those of the call; the API-key header that the
  \<^verbatim>\<open>httpx.Client\<close> adds to every request is part of the transport.
\<close>

datatype http_method = GET | POST

record http_request =
  req_method :: http_method
  req_url :: string
  req_params :: "(string \<times> json) list"
  req_json :: "json option"
  req_data :: "(string \<times> string) list"
  req_files :: "(string \<times> string \<times> bytes \<times> string) list"
  req_headers :: "(string \<times> string) list"
  req_timeout :: nat

text \<open>
  The service behind the client is a state machine: a request in a server state gives a
  response (or none, when the connection or the timeout fails:
  \<^verbatim>\<open>httpx.RequestError\<close>) and the next server state. The world the client runs in
  also records every request it has issued, in order.
\<close>

type_synonym 's transport = "'s \<Rightarrow> http_request \<Rightarrow> http_response option \<times> 's"

record 's world =
  server :: 's
  sent :: "http_request list"

definition send :: "'s transport \<Rightarrow> http_request \<Rightarrow> 's world \<Rightarrow> (error + http_response) \<times> 's world" where
  "send T req w =
     (case T (server w) req of
        (None, s') \<Rightarrow> (Inl RequestError, \<lparr>server = s', sent = sent w @ [req]\<rparr>)
      | (Some response, s') \<Rightarrow> (Inr response, \<lparr>server = s', sent = sent w @ [req]\<rparr>))"

definition client_get :: "string \<Rightarrow> (string \<times> json) list \<Rightarrow> http_request" where
  "client_get u ps =
     \<lparr>req_method = GET, req_url = u, req_params = ps, req_json = None, req_data = [],
      req_files = [], req_headers = [], req_timeout = 30\<rparr>"

definition client_post_json :: "string \<Rightarrow> json \<Rightarrow> http_request" where
  "client_post_json u payload =
     \<lparr>req_method = POST, req_url = u, req_params = [], req_json = Some payload, req_data = [],
      req_files = [], req_headers = [], req_timeout = 30\<rparr>"

definition client_post_multipart :: "string \<Rightarrow> (string \<times> string) list \<Rightarrow> (string \<times> string \<times> bytes \<times> string) list \<Rightarrow> http_request" where
  "client_post_multipart u d fs =
     \<lparr>req_method = POST, req_url = u, req_params = [], req_json = None, req_data = d,
      req_files = fs, req_headers = [], req_timeout = 120\<rparr>"

text \<open>
  \<^verbatim>\<open>response.raise_for_status()\<close> raises \<^verbatim>\<open>HTTPStatusError\<close>, which carries the
  response (status and body), unless the status is 2xx. \<^verbatim>\<open>response.json()\<close> decodes
  the body and raises the decoder's exception when the body is not a JSON document.
\<close>

definition is_success :: "http_response \<Rightarrow> bool" where
  "is_success r = (200 \<le> resp_status r \<and> resp_status r \<le> 299)"

definition raise_for_status :: "http_response \<Rightarrow> error + unit" where
  "raise_for_status r = (if is_success r then Inr () else Inl (HTTPStatusError r))"

definition response_json :: "http_response \<Rightarrow> error + json" where
  "response_json r = (case resp_json r of Inl e \<Rightarrow> Inl (JsonException e) | Inr j \<Rightarrow> Inr j)"

text \<open>
  The two lines that end most operations:
  \<^verbatim>\<open>response.raise_for_status(); return response.json()\<close>.
\<close>

definition checked_json :: "(error + http_response) \<times> 's world \<Rightarrow> (error + json) \<times> 's world" where
  "checked_json p =
     (case p of
        (Inl e, w') \<Rightarrow> (Inl e, w')
      | (Inr response, w') \<Rightarrow>
          (case raise_for_status response of
             Inl e \<Rightarrow> (Inl e, w')
           | Inr _ \<Rightarrow> (response_json response, w')))"

section \<open>GoodmemClient\<close>

text \<open>
  Each method of the class is a function of the transport and the world; it returns the
  value or the exception, and the world after its requests. The \<^verbatim>\<open>debug\<close> flags
  only print and are left out.
\<close>

subsection \<open>get_space\<close>

definition get_space :: "'s transport \<Rightarrow> string \<Rightarrow> 's world \<Rightarrow> (error + json) \<times> 's world" where
  "get_space T space_id w =
     (case send T (client_get (''/v1/spaces/'' @ quote space_id) []) w of
        (Inl e, w') \<Rightarrow> (Inl e, w')
      | (Inr response, w') \<Rightarrow>
          if resp_status response = 404 then (Inr JNull, w')
          else checked_json (Inr response, w'))"

subsection \<open>create_space\<close>

definition create_space_payload :: "string \<Rightarrow> string \<Rightarrow> string option \<Rightarrow> (string \<times> json) list" where
  "create_space_payload space_name embedder_id space_id =
     [(''name'', JStr space_name),
      (''spaceEmbedders'',
         JArr [JObj [(''embedderId'', JStr embedder_id), (''defaultRetrievalWeight'', JFloat 1)]]),
      (''defaultChunkingConfig'',
         JObj [(''recursive'',
           JObj [(''chunkSize'', JInt 512),
                 (''chunkOverlap'', JInt 64),
                 (''keepStrategy'', JStr ''KEEP_END''),
                 (''lengthMeasurement'', JStr ''CHARACTER_COUNT'')])])]
     @ (case space_id of None \<Rightarrow> [] | Some sid \<Rightarrow> [(''spaceId'', JStr sid)])"

definition create_space :: "'s transport \<Rightarrow> string \<Rightarrow> string \<Rightarrow> string option \<Rightarrow> 's world \<Rightarrow> (error + json) \<times> 's world" where
  "create_space T space_name embedder_id space_id w =
     checked_json (send T (client_post_json ''/v1/spaces''
                             (JObj (create_space_payload space_name embedder_id space_id))) w)"

subsection \<open>insert_memory and insert_memory_binary\<close>

text \<open>
  \<^verbatim>\<open>if metadata: payload["metadata"] = metadata\<close>, for
  \<^verbatim>\<open>metadata: Optional[Dict[str, Any]]\<close>: the entry the statement adds to the
  payload. The condition holds for a dict with at least one entry.
\<close>

definition metadata_entry :: "(string \<times> json) list option \<Rightarrow> (string \<times> json) list" where
  "metadata_entry metadata =
     (case metadata of
        None \<Rightarrow> []
      | Some m \<Rightarrow> if truthy (JObj m) then [(''metadata'', JObj m)] else [])"

definition insert_memory_payload :: "string \<Rightarrow> string \<Rightarrow> string \<Rightarrow> (string \<times> json) list option \<Rightarrow> (string \<times> json) list" where
  "insert_memory_payload space_id content content_type metadata =
     [(''spaceId'', JStr space_id),
      (''originalContent'', JStr content),
      (''contentType'', JStr content_type)]
     @ metadata_entry metadata"

definition insert_memory :: "'s transport \<Rightarrow> string \<Rightarrow> string \<Rightarrow> string \<Rightarrow> (string \<times> json) list option \<Rightarrow> 's world \<Rightarrow> (error + json) \<times> 's world" where
  "insert_memory T space_id content content_type metadata w =
     checked_json (send T (client_post_json ''/v1/memories''
                             (JObj (insert_memory_payload space_id content content_type metadata))) w)"

text \<open>
  The binary variant serialises \<^verbatim>\<open>request_data\<close> with \<^verbatim>\<open>json.dumps\<close> (the
  parameter \<open>dumps\<close>) into the form field \<^verbatim>\<open>request\<close> of a multipart upload and
  waits 120 seconds.
\<close>

definition insert_memory_binary_request_data :: "string \<Rightarrow> string \<Rightarrow> (string \<times> json) list option \<Rightarrow> (string \<times> json) list" where
  "insert_memory_binary_request_data space_id content_type metadata =
     [(''spaceId'', JStr space_id),
      (''contentType'', JStr content_type)]
     @ metadata_entry metadata"

definition insert_memory_binary :: "(json \<Rightarrow> string) \<Rightarrow> 's transport \<Rightarrow> string \<Rightarrow> bytes \<Rightarrow> string \<Rightarrow> (string \<times> json) list option \<Rightarrow> 's world \<Rightarrow> (error + json) \<times> 's world" where
  "insert_memory_binary dumps T space_id content_bytes content_type metadata w =
     checked_json (send T (client_post_multipart ''/v1/memories''
                             [(''request'',
                               dumps (JObj (insert_memory_binary_request_data space_id content_type metadata)))]
                             [(''file'', ''upload'', content_bytes, content_type)]) w)"

subsection \<open>retrieve_memories\<close>

text \<open>
  The loop over the lines of the body. \<open>loads\<close> stands for \<^verbatim>\<open>json.loads\<close>: the
  document or the exception it raises. The loop catches \<^verbatim>\<open>json.JSONDecodeError\<close>
  and nothing else; any other exception of the decoder ends the call.
  The call passes \<^verbatim>\<open>self._headers\<close>, which \<^verbatim>\<open>__init__\<close> sets from the stripped
  API key, with the \<^verbatim>\<open>Accept\<close> header added.
\<close>

definition client_headers :: "string \<Rightarrow> (string \<times> string) list" where
  "client_headers api_key = [(''x-api-key'', strip api_key)]"

fun collect_chunks :: "(string \<Rightarrow> json_exception + json) \<Rightarrow> json list \<Rightarrow> string list \<Rightarrow> error + json list" where
  "collect_chunks loads chunks [] = Inr chunks"
| "collect_chunks loads chunks (line # lines) =
     (if strip line \<noteq> [] then
        (case loads line of
           Inl e \<Rightarrow>
             if e = JSONDecodeError then collect_chunks loads chunks lines
             else Inl (JsonException e)
         | Inr tmp_dict \<Rightarrow>
             (case py_in ''retrievedItem'' tmp_dict of
                Inl e \<Rightarrow> Inl e
              | Inr found \<Rightarrow>
                  if found then collect_chunks loads (chunks @ [tmp_dict]) lines
                  else collect_chunks loads chunks lines))
      else collect_chunks loads chunks lines)"

definition retrieve_request :: "string \<Rightarrow> string \<Rightarrow> string list \<Rightarrow> int \<Rightarrow> http_request" where
  "retrieve_request api_key query space_ids request_size =
     \<lparr>req_method = POST, req_url = ''/v1/memories:retrieve'', req_params = [],
      req_json = Some (JObj [(''message'', JStr query),
                             (''spaceKeys'', JArr (map (\<lambda>sid. JObj [(''spaceId'', JStr sid)]) space_ids)),
                             (''requestedSize'', JInt request_size)]),
      req_data = [], req_files = [],
      req_headers = client_headers api_key @ [(''Accept'', ''application/x-ndjson'')],
      req_timeout = 30\<rparr>"

definition retrieve_memories :: "(string \<Rightarrow> json_exception + json) \<Rightarrow> string \<Rightarrow> 's transport \<Rightarrow> string \<Rightarrow> string list \<Rightarrow> int \<Rightarrow> 's world \<Rightarrow> (error + json list) \<times> 's world" where
  "retrieve_memories loads api_key T query space_ids request_size w =
     (case send T (retrieve_request api_key query space_ids request_size) w of
        (Inl e, w') \<Rightarrow> (Inl e, w')
      | (Inr response, w') \<Rightarrow>
          (case raise_for_status response of
             Inl e \<Rightarrow> (Inl e, w')
           | Inr _ \<Rightarrow> (collect_chunks loads [] (split_lines (strip (resp_text response))), w')))"

subsection \<open>list_spaces\<close>

text \<open>
  The pagination loop runs until a page comes without a (truthy) \<^verbatim>\<open>nextToken\<close>. Nothing
  bounds it, so the loop is a partial function: \<open>None\<close> is a call that never returns.
  \<^verbatim>\<open>next_token\<close> starts as \<^verbatim>\<open>None\<close> (\<open>JNull\<close>) and then holds whatever the
  last page gave.
\<close>

definition list_spaces_params :: "string option \<Rightarrow> json \<Rightarrow> (string \<times> json) list" where
  "list_spaces_params name next_token =
     [(''maxResults'', JInt 1000)]
     @ (if truthy next_token then [(''nextToken'', next_token)] else [])
     @ (case name of
          None \<Rightarrow> []
        | Some n \<Rightarrow> if n \<noteq> [] then [(''nameFilter'', JStr n)] else [])"

partial_function (option) list_spaces_loop ::
  "'s transport \<Rightarrow> string option \<Rightarrow> json list \<Rightarrow> json \<Rightarrow> 's world \<Rightarrow> ((error + json list) \<times> 's world) option" where
  "list_spaces_loop T name all_spaces next_token w =
     (case checked_json (send T (client_get ''/v1/spaces'' (list_spaces_params name next_token)) w) of
        (Inl e, w') \<Rightarrow> Some (Inl e, w')
      | (Inr data, w') \<Rightarrow>
          (case py_get data ''spaces'' (JArr []) of
             Inl e \<Rightarrow> Some (Inl e, w')
           | Inr spaces \<Rightarrow>
               (case py_iter spaces of
                  Inl e \<Rightarrow> Some (Inl e, w')
                | Inr page \<Rightarrow>
                    (case py_get data ''nextToken'' JNull of
                       Inl e \<Rightarrow> Some (Inl e, w')
                     | Inr token \<Rightarrow>
                         if \<not> truthy token then Some (Inr (all_spaces @ page), w')
                         else list_spaces_loop T name (all_spaces @ page) token w'))))"

declare list_spaces_loop.simps [code]

definition list_spaces :: "'s transport \<Rightarrow> string option \<Rightarrow> 's world \<Rightarrow> ((error + json list) \<times> 's world) option" where
  "list_spaces T name w = list_spaces_loop T name [] JNull w"

subsection \<open>list_embedders and create_embedder\<close>

definition list_embedders :: "'s transport \<Rightarrow> 's world \<Rightarrow> (error + json) \<times> 's world" where
  "list_embedders T w =
     (case checked_json (send T (client_get ''/v1/embedders'' []) w) of
        (Inl e, w') \<Rightarrow> (Inl e, w')
      | (Inr data, w') \<Rightarrow> (py_get data ''embedders'' (JArr []), w'))"

definition create_embedder_payload :: "string \<Rightarrow> string \<Rightarrow> string \<Rightarrow> string \<Rightarrow> int \<Rightarrow> string \<Rightarrow> string \<Rightarrow> string option \<Rightarrow> (string \<times> json) list" where
  "create_embedder_payload display_name provider_type endpoint_url model_identifier
       dimensionality api_key distribution_type embedder_id =
     [(''displayName'', JStr display_name),
      (''providerType'', JStr provider_type),
      (''endpointUrl'', JStr endpoint_url),
      (''modelIdentifier'', JStr model_identifier),
      (''dimensionality'', JInt dimensionality),
      (''distributionType'', JStr distribution_type),
      (''credentials'',
         JObj [(''kind'', JStr ''CREDENTIAL_KIND_API_KEY''),
               (''apiKey'', JObj [(''inlineSecret'', JStr api_key)])])]
     @ (case embedder_id of None \<Rightarrow> [] | Some eid \<Rightarrow> [(''embedderId'', JStr eid)])"

definition create_embedder :: "'s transport \<Rightarrow> string \<Rightarrow> string \<Rightarrow> string \<Rightarrow> string \<Rightarrow> int \<Rightarrow> string \<Rightarrow> string \<Rightarrow> string option \<Rightarrow> 's world \<Rightarrow> (error + json) \<times> 's world" where
  "create_embedder T display_name provider_type endpoint_url model_identifier
       dimensionality api_key distribution_type embedder_id w =
     checked_json (send T (client_post_json ''/v1/embedders''
        (JObj (create_embedder_payload display_name provider_type endpoint_url model_identifier
                 dimensionality api_key distribution_type embedder_id))) w)"

subsection \<open>get_memory_by_id and get_memories_batch\<close>

definition get_memory_by_id :: "'s transport \<Rightarrow> string \<Rightarrow> 's world \<Rightarrow> (error + json) \<times> 's world" where
  "get_memory_by_id T memory_id w =
     checked_json (send T (client_get (''/v1/memories/'' @ quote memory_id) []) w)"

definition get_memories_batch :: "'s transport \<Rightarrow> string list \<Rightarrow> 's world \<Rightarrow> (error + json) \<times> 's world" where
  "get_memories_batch T memory_ids w =
     (if memory_ids = [] then (Inr (JArr []), w)
      else
        (case checked_json (send T (client_post_json ''/v1/memories:batchGet''
                                      (JObj [(''memoryIds'', JArr (map JStr memory_ids))])) w) of
           (Inl e, w') \<Rightarrow> (Inl e, w')
         | (Inr data, w') \<Rightarrow> (py_get data ''memories'' (JArr []), w')))"

subsection \<open>ensure_embedder\<close>

text \<open>The default Google embedder configuration, as the class attributes give it.\<close>

definition GOOGLE_EMBEDDER_DISPLAY_NAME :: string where
  "GOOGLE_EMBEDDER_DISPLAY_NAME = ''gemini-embedding-001''"

definition GOOGLE_EMBEDDER_PROVIDER_TYPE :: string where
  "GOOGLE_EMBEDDER_PROVIDER_TYPE = ''OPENAI''"

definition GOOGLE_EMBEDDER_ENDPOINT_URL :: string where
  "GOOGLE_EMBEDDER_ENDPOINT_URL = ''https://generativelanguage.googleapis.com/v1beta/openai''"

definition GOOGLE_EMBEDDER_MODEL_ID :: string where
  "GOOGLE_EMBEDDER_MODEL_ID = ''gemini-embedding-001''"

definition GOOGLE_EMBEDDER_DIMENSIONALITY :: int where
  "GOOGLE_EMBEDDER_DIMENSIONALITY = 1536"

definition GOOGLE_EMBEDDER_DISTRIBUTION_TYPE :: string where
  "GOOGLE_EMBEDDER_DISTRIBUTION_TYPE = ''DENSE''"

text \<open>
  The process environment is a map from variable names to values;
  \<^verbatim>\<open>os.getenv("GOOGLE_API_KEY") or os.getenv("GEMINI_API_KEY")\<close> takes the first
  variable when it has a non-empty value and the second otherwise.
\<close>

type_synonym environ = "string \<Rightarrow> string option"

definition getenv_truthy :: "string option \<Rightarrow> bool" where
  "getenv_truthy v = (case v of None \<Rightarrow> False | Some s \<Rightarrow> s \<noteq> [])"

definition google_api_key :: "environ \<Rightarrow> string option" where
  "google_api_key env =
     (if getenv_truthy (env ''GOOGLE_API_KEY'') then env ''GOOGLE_API_KEY''
      else env ''GEMINI_API_KEY'')"

definition no_key_message :: string where
  "no_key_message =
     ''No embedders available in Goodmem and neither GOOGLE_API_KEY '' @
     ''nor GEMINI_API_KEY is set. Please create an embedder manually '' @
     ''or set one of these environment variables to auto-create a '' @
     ''Google Gemini embedder.''"

definition auto_create_google_embedder :: "environ \<Rightarrow> 's transport \<Rightarrow> 's world \<Rightarrow> (error + json) \<times> 's world" where
  "auto_create_google_embedder env T w =
     (case google_api_key env of
        None \<Rightarrow> (Inl (ValueError no_key_message), w)
      | Some key \<Rightarrow>
          if key = [] then (Inl (ValueError no_key_message), w)
          else
            (case create_embedder T GOOGLE_EMBEDDER_DISPLAY_NAME GOOGLE_EMBEDDER_PROVIDER_TYPE
                    GOOGLE_EMBEDDER_ENDPOINT_URL GOOGLE_EMBEDDER_MODEL_ID
                    GOOGLE_EMBEDDER_DIMENSIONALITY key GOOGLE_EMBEDDER_DISTRIBUTION_TYPE None w of
               (Inl e, w') \<Rightarrow> (Inl e, w')
             | (Inr response, w') \<Rightarrow>
                 (case py_get response ''embedderId'' JNull of
                    Inl e \<Rightarrow> (Inl e, w')
                  | Inr new_id \<Rightarrow>
                      if \<not> truthy new_id
                      then (Inl (ValueError
                             ''Failed to auto-create Google embedder: no embedderId in response''), w')
                      else (Inr new_id, w'))))"

text \<open>
  \<^verbatim>\<open>[e.get("embedderId") for e in embedders]\<close>: the comprehension stops at the first
  element that is not a dict.
\<close>

fun get_each :: "string \<Rightarrow> json list \<Rightarrow> error + json list" where
  "get_each k [] = Inr []"
| "get_each k (e # es) =
     (case py_get e k JNull of
        Inl err \<Rightarrow> Inl err
      | Inr v \<Rightarrow> (case get_each k es of Inl err \<Rightarrow> Inl err | Inr vs \<Rightarrow> Inr (v # vs)))"

definition embedder_ids :: "json \<Rightarrow> error + json list" where
  "embedder_ids embedders =
     (case py_iter embedders of Inl e \<Rightarrow> Inl e | Inr es \<Rightarrow> get_each ''embedderId'' es)"

text \<open>
  The message of the not-found error is an f-string; \<open>str_of\<close> stands for Python's
  \<^verbatim>\<open>str\<close> of the list of available ids.
\<close>

definition not_found_message :: "(json \<Rightarrow> string) \<Rightarrow> string \<Rightarrow> json list \<Rightarrow> string" where
  "not_found_message str_of embedder_id valid_ids =
     ''GOODMEM_EMBEDDER_ID '' @ [CHR 0x27] @ embedder_id @ [CHR 0x27] @ '' not found. '' @
     ''Available embedders: '' @ str_of (JArr valid_ids)"

definition ensure_embedder :: "(json \<Rightarrow> string) \<Rightarrow> environ \<Rightarrow> 's transport \<Rightarrow> string option \<Rightarrow> 's world \<Rightarrow> (error + json) \<times> 's world" where
  "ensure_embedder str_of env T embedder_id w =
     (case list_embedders T w of
        (Inl e, w1) \<Rightarrow> (Inl e, w1)
      | (Inr embedders, w1) \<Rightarrow>
          (case embedder_id of
             Some eid \<Rightarrow>
               (case embedder_ids embedders of
                  Inl e \<Rightarrow> (Inl e, w1)
                | Inr valid_ids \<Rightarrow>
                    if JStr eid \<in> set valid_ids then (Inr (JStr eid), w1)
                    else (Inl (ValueError (not_found_message str_of eid valid_ids)), w1))
           | None \<Rightarrow>
               if truthy embedders then
                 (case py_first embedders of
                    Inl e \<Rightarrow> (Inl e, w1)
                  | Inr first \<Rightarrow>
                      (case py_get first ''embedderId'' JNull of
                         Inl e \<Rightarrow> (Inl e, w1)
                       | Inr eid \<Rightarrow>
                           if truthy eid then (Inr eid, w1)
                           else auto_create_google_embedder env T w1))
               else auto_create_google_embedder env T w1))"

subsection \<open>The attributes of a client\<close>

text \<open>
  What an instance of \<^verbatim>\<open>GoodmemClient\<close> answers to: the attributes \<^verbatim>\<open>__init__\<close>
  sets and the names the class body binds, in source order. The class has no base class
  and no \<^verbatim>\<open>__getattr__\<close>; looking up any other name (the dunder names of
  \<^verbatim>\<open>object\<close> apart) raises \<^verbatim>\<open>AttributeError\<close>.
\<close>

definition GoodmemClient_attributes :: "string list" where
  "GoodmemClient_attributes =
     [''_base_url'', ''_api_key'', ''_headers'', ''_debug'', ''_client'',
      ''__init__'', ''close'', ''__enter__'', ''__exit__'', ''_safe_json_dumps'',
      ''get_space'', ''create_space'', ''insert_memory'', ''insert_memory_binary'',
      ''retrieve_memories'', ''list_spaces'', ''list_embedders'', ''create_embedder'',
      ''get_memory_by_id'', ''get_memories_batch'',
      ''_GOOGLE_EMBEDDER_DISPLAY_NAME'', ''_GOOGLE_EMBEDDER_PROVIDER_TYPE'',
      ''_GOOGLE_EMBEDDER_ENDPOINT_URL'', ''_GOOGLE_EMBEDDER_MODEL_ID'',
      ''_GOOGLE_EMBEDDER_DIMENSIONALITY'', ''_GOOGLE_EMBEDDER_DISTRIBUTION_TYPE'',
      ''ensure_embedder'', ''_auto_create_google_embedder'']"

definition getattr :: "string \<Rightarrow> error + string" where
  "getattr name = (if name \<in> set GoodmemClient_attributes then Inr name else Inl AttributeError)"

section \<open>Space resolution\<close>

text \<open>
  Modelled from the spec: the space-resolution helper of the adapters
  (\<^verbatim>\<open>goodmem_adk/tools.py\<close>, \<^verbatim>\<open>plugin.py\<close>, \<^verbatim>\<open>memory.py\<close>) is not among the
  sources, only its tests are. A space, as section 3 of the specification describes it:
  an id and a name.
\<close>

record space =
  id_of_space :: string
  name_of_space :: string

text \<open>
  Modelled from the spec: the four client operations the helper calls (section 4.1):
  fetch a space by id (a record or the not-found sentinel), list the spaces filtered by
  a name, create a space under a name with an embedder, resolve an embedder. Each runs
  in a world \<open>'w\<close> and may fail with a client error.
\<close>

record 'w remote =
  fetch_space :: "string \<Rightarrow> 'w \<Rightarrow> (error + space option) \<times> 'w"
  list_spaces_named :: "string \<Rightarrow> 'w \<Rightarrow> (error + space list) \<times> 'w"
  create_named_space :: "string \<Rightarrow> string \<Rightarrow> 'w \<Rightarrow> (error + space) \<times> 'w"
  resolve_embedder :: "string option \<Rightarrow> 'w \<Rightarrow> (error + string) \<times> 'w"

text \<open>Modelled from the spec: the remote operations a resolution invokes, in order.\<close>

datatype remote_call =
    FetchSpace string
  | ListSpaces string
  | ResolveEmbedder "string option"
  | CreateSpace string string

text \<open>
  Modelled from the spec: the failures of a resolution (section 7): not found, a name
  that matches no space, an id and a name that disagree, a failed remote request; with
  the messages section 4.2 quotes.
\<close>

datatype resolution_failure =
    SpaceNotFound
  | NameMatchesNoSpace
  | IdAndNameDiffer
  | RemoteFailure error

definition failure_message :: "resolution_failure \<Rightarrow> string" where
  "failure_message f = (case f of
      SpaceNotFound \<Rightarrow> ''not found''
    | NameMatchesNoSpace \<Rightarrow> ''name does not match any existing space''
    | IdAndNameDiffer \<Rightarrow> ''id and name refer to different spaces''
    | RemoteFailure e \<Rightarrow> ''request failure'')"

text \<open>
  Modelled from the spec: what a resolution is given (section 4.2): the optional explicit
  id and name, the optional ids and names from the environment, the default name derived
  from the caller's identity, and the embedder id pinned for a creation.
\<close>

record resolution_request =
  explicit_id :: "string option"
  explicit_name :: "string option"
  env_id :: "string option"
  env_name :: "string option"
  default_name :: string
  pinned_embedder :: "string option"

text \<open>
  Modelled from the spec: step 1. The explicit value if given, else the environment's.
\<close>

definition effective :: "string option \<Rightarrow> string option \<Rightarrow> string option" where
  "effective explicit env = (case explicit of Some v \<Rightarrow> Some v | None \<Rightarrow> env)"

type_synonym 'w resolution = "(resolution_failure + string) \<times> 'w \<times> remote_call list"

text \<open>
  Modelled from the spec: step 3. List the spaces filtered by the name; if a match exists
  return its id; otherwise resolve an embedder and create a space under that name.
\<close>

definition find_or_create :: "'w remote \<Rightarrow> string option \<Rightarrow> string \<Rightarrow> 'w \<Rightarrow> 'w resolution" where
  "find_or_create R embedder name w =
     (case list_spaces_named R name w of
        (Inl e, w1) \<Rightarrow> (Inl (RemoteFailure e), w1, [ListSpaces name])
      | (Inr found, w1) \<Rightarrow>
          (case found of
             match # _ \<Rightarrow> (Inr (id_of_space match), w1, [ListSpaces name])
           | [] \<Rightarrow>
               (case resolve_embedder R embedder w1 of
                  (Inl e, w2) \<Rightarrow>
                    (Inl (RemoteFailure e), w2, [ListSpaces name, ResolveEmbedder embedder])
                | (Inr eid, w2) \<Rightarrow>
                    (case create_named_space R name eid w2 of
                       (Inl e, w3) \<Rightarrow>
                         (Inl (RemoteFailure e), w3,
                          [ListSpaces name, ResolveEmbedder embedder, CreateSpace name eid])
                     | (Inr created, w3) \<Rightarrow>
                         (Inr (id_of_space created), w3,
                          [ListSpaces name, ResolveEmbedder embedder, CreateSpace name eid])))))"

text \<open>
  Modelled from the spec: steps 2 to 5. With an id only, fetch it. With a name only, or
  with neither (then under the default name), find or create. With both, list the spaces
  filtered by the name and compare the match's id with the effective id.
\<close>

definition resolve_space :: "'w remote \<Rightarrow> resolution_request \<Rightarrow> 'w \<Rightarrow> 'w resolution" where
  "resolve_space R q w =
     (case effective (explicit_id q) (env_id q) of
        Some sid \<Rightarrow>
          (case effective (explicit_name q) (env_name q) of
             None \<Rightarrow>
               (case fetch_space R sid w of
                  (Inl e, w1) \<Rightarrow> (Inl (RemoteFailure e), w1, [FetchSpace sid])
                | (Inr None, w1) \<Rightarrow> (Inl SpaceNotFound, w1, [FetchSpace sid])
                | (Inr (Some found), w1) \<Rightarrow> (Inr sid, w1, [FetchSpace sid]))
           | Some name \<Rightarrow>
               (case list_spaces_named R name w of
                  (Inl e, w1) \<Rightarrow> (Inl (RemoteFailure e), w1, [ListSpaces name])
                | (Inr found, w1) \<Rightarrow>
                    (case found of
                       [] \<Rightarrow> (Inl NameMatchesNoSpace, w1, [ListSpaces name])
                     | match # _ \<Rightarrow>
                         if id_of_space match \<noteq> sid then (Inl IdAndNameDiffer, w1, [ListSpaces name])
                         else (Inr sid, w1, [ListSpaces name]))))
      | None \<Rightarrow>
          (case effective (explicit_name q) (env_name q) of
             Some name \<Rightarrow> find_or_create R (pinned_embedder q) name w
           | None \<Rightarrow> find_or_create R (pinned_embedder q) (default_name q) w))"

text \<open>
  Modelled from the spec: the cache of resolved ids, keyed by the owning context. A cached
  id is returned without any remote call; a successful resolution is stored.
\<close>

definition get_or_create_space ::
  "'w remote \<Rightarrow> resolution_request \<Rightarrow> 'k \<Rightarrow> ('k \<rightharpoonup> string) \<Rightarrow> 'w \<Rightarrow> 'w resolution \<times> ('k \<rightharpoonup> string)" where
  "get_or_create_space R q key cache w =
     (case cache key of
        Some sid \<Rightarrow> ((Inr sid, w, []), cache)
      | None \<Rightarrow>
          (case resolve_space R q w of
             (Inl f, w', calls) \<Rightarrow> ((Inl f, w', calls), cache)
           | (Inr sid, w', calls) \<Rightarrow> ((Inr sid, w', calls), cache(key \<mapsto> sid))))"

section \<open>Requests, pages and runs\<close>

text \<open>The requests a call has added to the record, between the world before and after.\<close>

definition issued :: "'s world \<Rightarrow> 's world \<Rightarrow> http_request list" where
  "issued w w' = drop (length (sent w)) (sent w')"

definition creates_embedder :: "http_request \<Rightarrow> bool" where
  "creates_embedder req = (req_method req = POST \<and> req_url req = ''/v1/embedders'')"

text \<open>
  What \<open>auto_create_google_embedder\<close> posts, with the class attributes written out.
\<close>

definition google_embedder_request :: "string \<Rightarrow> http_request" where
  "google_embedder_request key =
     client_post_json ''/v1/embedders''
       (JObj [(''displayName'', JStr ''gemini-embedding-001''),
              (''providerType'', JStr ''OPENAI''),
              (''endpointUrl'', JStr ''https://generativelanguage.googleapis.com/v1beta/openai''),
              (''modelIdentifier'', JStr ''gemini-embedding-001''),
              (''dimensionality'', JInt 1536),
              (''distributionType'', JStr ''DENSE''),
              (''credentials'',
                 JObj [(''kind'', JStr ''CREDENTIAL_KIND_API_KEY''),
                       (''apiKey'', JObj [(''inlineSecret'', JStr key)])])])"

text \<open>
  A run of the service over the pages of one listing: \<open>paged T name token w pages w'\<close>
  holds when, from the world \<open>w\<close> and the cursor \<open>token\<close>, the service answers the
  successive page requests with 2xx responses whose JSON objects carry the space lists
  \<open>pages\<close>, every page but the last with a next token and the last one without, and
  leaves the world \<open>w'\<close>.
\<close>

inductive paged :: "'s transport \<Rightarrow> string option \<Rightarrow> json \<Rightarrow> 's world \<Rightarrow> json list list \<Rightarrow> 's world \<Rightarrow> bool"
  for T :: "'s transport" and name :: "string option" where
  last_page:
    "send T (client_get ''/v1/spaces'' (list_spaces_params name next_token)) w = (Inr response, w') \<Longrightarrow>
     is_success response \<Longrightarrow>
     resp_json response = Inr (JObj data) \<Longrightarrow>
     py_iter (dict_get data ''spaces'' (JArr [])) = Inr page \<Longrightarrow>
     \<not> truthy (dict_get data ''nextToken'' JNull) \<Longrightarrow>
     paged T name next_token w [page] w'"
| next_page:
    "send T (client_get ''/v1/spaces'' (list_spaces_params name next_token)) w = (Inr response, w') \<Longrightarrow>
     is_success response \<Longrightarrow>
     resp_json response = Inr (JObj data) \<Longrightarrow>
     py_iter (dict_get data ''spaces'' (JArr [])) = Inr page \<Longrightarrow>
     truthy (dict_get data ''nextToken'' JNull) \<Longrightarrow>
     paged T name (dict_get data ''nextToken'' JNull) w' pages w'' \<Longrightarrow>
     paged T name next_token w (page # pages) w''"

code_pred (modes: i \<Rightarrow> i \<Rightarrow> i \<Rightarrow> i \<Rightarrow> o \<Rightarrow> o \<Rightarrow> bool) paged .

text \<open>A response that hands out a next token.\<close>

definition has_next_token :: "http_response \<Rightarrow> bool" where
  "has_next_token r =
     (is_success r \<and>
      (case resp_json r of
         Inr (JObj data) \<Rightarrow> truthy (dict_get data ''nextToken'' JNull)
       | _ \<Rightarrow> False))"

section \<open>Concrete services\<close>

text \<open>
  The unit tests replace the HTTP client by a mock that answers from a list of prepared
  responses. \<open>scripted\<close> is that mock: the server state is the list of responses still
  to give; an exhausted script behaves like a dropped connection.
\<close>

definition scripted :: "(http_response list) transport" where
  "scripted rs req = (case rs of [] \<Rightarrow> (None, []) | r # rs' \<Rightarrow> (Some r, rs'))"

definition ok_json :: "json \<Rightarrow> http_response" where
  "ok_json j = \<lparr>resp_status = 200, resp_text = [], resp_json = Inr j\<rparr>"

definition ok_text :: "string \<Rightarrow> http_response" where
  "ok_text body = \<lparr>resp_status = 200, resp_text = body, resp_json = Inl JSONDecodeError\<rparr>"

definition no_content :: http_response where
  "no_content = \<lparr>resp_status = 204, resp_text = [], resp_json = Inl JSONDecodeError\<rparr>"

text \<open>
  A 200 whose body is not UTF-8 text: \<^verbatim>\<open>response.json()\<close> raises
  \<^verbatim>\<open>UnicodeDecodeError\<close> on it; \<^verbatim>\<open>response.text\<close> replaces the bytes it cannot
  decode, written here as a question mark.
\<close>

definition not_utf8 :: http_response where
  "not_utf8 = \<lparr>resp_status = 200, resp_text = ''?'', resp_json = Inl UnicodeDecodeError\<rparr>"

definition start :: "http_response list \<Rightarrow> (http_response list) world" where
  "start rs = \<lparr>server = rs, sent = []\<rparr>"

text \<open>
  Scripts of the embedder listings, and environments of the runs: both keys set, only the
  Gemini key set (the Google key empty), both empty as the unit tests unset them.
\<close>

definition one_embedder :: "http_response list" where
  "one_embedder =
     [ok_json (JObj [(''embedders'',
        JArr [JObj [(''embedderId'', JStr ''valid-emb''), (''name'', JStr ''Valid Embedder'')]])])]"

definition first_without_id :: "http_response list" where
  "first_without_id =
     [ok_json (JObj [(''embedders'',
        JArr [JObj [(''displayName'', JStr ''unnamed'')],
              JObj [(''embedderId'', JStr ''emb-2'')]])]),
      ok_json (JObj [(''embedderId'', JStr ''auto-created'')])]"

definition no_embedders :: "http_response list" where
  "no_embedders =
     [ok_json (JObj [(''embedders'', JArr [])]),
      ok_json (JObj [(''embedderId'', JStr ''new-emb'')])]"

definition google_key_env :: environ where
  "google_key_env =
     [''GOOGLE_API_KEY'' \<mapsto> ''test-google-key'', ''GEMINI_API_KEY'' \<mapsto> ''test-gemini-key'']"

definition gemini_key_env :: environ where
  "gemini_key_env = [''GOOGLE_API_KEY'' \<mapsto> [], ''GEMINI_API_KEY'' \<mapsto> ''test-gemini-key'']"

definition empty_keys_env :: environ where
  "empty_keys_env = [''GOOGLE_API_KEY'' \<mapsto> [], ''GEMINI_API_KEY'' \<mapsto> []]"


text \<open>
  Three lines of a retrieval stream, and \<^verbatim>\<open>json.loads\<close> on exactly these lines.
\<close>

definition item_line :: string where
  "item_line = ''{'' @ [CHR 0x22] @ ''retrievedItem'' @ [CHR 0x22] @ '': {}}''"

definition status_line :: string where
  "status_line = ''{'' @ [CHR 0x22] @ ''status'' @ [CHR 0x22] @ '': '' @
                 [CHR 0x22] @ ''complete'' @ [CHR 0x22] @ ''}''"

definition sample_loads :: "string \<Rightarrow> json_exception + json" where
  "sample_loads line =
     (case map_of
        [(item_line, JObj [(''retrievedItem'', JObj [])]),
         (status_line, JObj [(''status'', JStr ''complete'')]),
         (''null'', JNull)] line of
        Some document \<Rightarrow> Inr document
      | None \<Rightarrow> Inl JSONDecodeError)"

definition scalar_body :: string where
  "scalar_body = item_line @ [CHR 0x0A] @ ''null''"

text \<open>An in-memory service and a request with both id and name, for the concrete runs.\<close>

definition memory_remote :: "(space list) remote" where
  "memory_remote =
     \<lparr>fetch_space = (\<lambda>sid spaces. (Inr (find (\<lambda>s. id_of_space s = sid) spaces), spaces)),
      list_spaces_named = (\<lambda>name spaces. (Inr (filter (\<lambda>s. name_of_space s = name) spaces), spaces)),
      create_named_space = (\<lambda>name eid spaces.
         (Inr \<lparr>id_of_space = ''new-id'', name_of_space = name\<rparr>,
          spaces @ [\<lparr>id_of_space = ''new-id'', name_of_space = name\<rparr>])),
      resolve_embedder = (\<lambda>eid spaces. (Inr ''emb-1'', spaces))\<rparr>"

definition both_given :: "string \<Rightarrow> string \<Rightarrow> resolution_request" where
  "both_given sid name =
     \<lparr>explicit_id = Some sid, explicit_name = Some name, env_id = None, env_name = None,
      default_name = ''adk_tool_test-user'', pinned_embedder = None\<rparr>"

section \<open>Theorems\<close>

subsection \<open>The record of requests\<close>

lemma sent_send: "send T req w = (r, w') \<Longrightarrow> sent w' = sent w @ [req]"
  by (auto simp: send_def split: prod.splits option.splits)

lemma sent_checked_json: "checked_json (send T req w) = (r, w') \<Longrightarrow> sent w' = sent w @ [req]"
  by (auto simp: checked_json_def dest: sent_send split: prod.splits sum.splits)

lemma sent_snd_checked_json: "sent (snd (checked_json (send T req w))) = sent w @ [req]"
  using sent_checked_json [of T req w "fst (checked_json (send T req w))" "snd (checked_json (send T req w))"]
  by simp

lemma issued_append: "sent w' = sent w @ xs \<Longrightarrow> issued w w' = xs"
  by (simp add: issued_def)

lemma send_scripted:
  "send scripted req (start (r # rs)) = (Inr r, \<lparr>server = rs, sent = [req]\<rparr>)"
  by (simp add: send_def scripted_def start_def)


subsection \<open>Fetching memories in a batch\<close>

text \<open>
  C9. For the empty list of memory ids \<open>get_memories_batch\<close> returns the empty list and
  leaves the record of issued requests as it was: no HTTP request at all. For every
  non-empty list, whatever the service answers, the call issues exactly one request: the
  POST to \<^verbatim>\<open>/v1/memories:batchGet\<close> whose JSON payload carries all the requested ids,
  in order.
\<close>

theorem get_memories_batch_requests:
  "get_memories_batch T [] w = (Inr (JArr []), w) \<and>
   (memory_ids \<noteq> [] \<longrightarrow>
      sent (snd (get_memories_batch T memory_ids w)) =
        sent w @ [client_post_json ''/v1/memories:batchGet''
                    (JObj [(''memoryIds'', JArr (map JStr memory_ids))])])"
  by (auto simp: get_memories_batch_def dest: sent_checked_json split: prod.splits sum.splits)

theorem get_memories_batch_requests_witness:
  "[''m1'', ''m2''] \<noteq> [] \<and>
   sent (snd (get_memories_batch scripted [''m1'', ''m2'']
                (start [ok_json (JObj [(''memories'', JArr [])])]))) =
     [client_post_json ''/v1/memories:batchGet''
        (JObj [(''memoryIds'', JArr [JStr ''m1'', JStr ''m2''])])]"
  using get_memories_batch_requests [of scripted "start [ok_json (JObj [(''memories'', JArr [])])]"
      "[''m1'', ''m2'']"]
  by (simp add: start_def)

subsection \<open>Metadata of an inserted memory\<close>

text \<open>
  C10. Both insertions send one POST to \<^verbatim>\<open>/v1/memories\<close> whose payload is built by
  \<open>insert_memory_payload\<close> (JSON body) or \<open>insert_memory_binary_request_data\<close>
  (serialised into the \<^verbatim>\<open>request\<close> part of the multipart form). When the metadata
  argument is absent or an empty mapping the payload has no \<^verbatim>\<open>metadata\<close> key; when
  the mapping \<open>m\<close> is non-empty the key \<^verbatim>\<open>metadata\<close> holds \<open>m\<close> itself. An empty
  mapping and an omitted one give the same call: same request, same outcome.
\<close>

theorem metadata_on_the_wire:
  "sent (snd (insert_memory T space_id content content_type metadata w)) =
     sent w @ [client_post_json ''/v1/memories''
                 (JObj (insert_memory_payload space_id content content_type metadata))] \<and>
   sent (snd (insert_memory_binary dumps T space_id content_bytes content_type metadata w)) =
     sent w @ [client_post_multipart ''/v1/memories''
                 [(''request'', dumps (JObj (insert_memory_binary_request_data space_id content_type metadata)))]
                 [(''file'', ''upload'', content_bytes, content_type)]] \<and>
   (metadata = None \<or> metadata = Some [] \<longrightarrow>
      ''metadata'' \<notin> fst ` set (insert_memory_payload space_id content content_type metadata) \<and>
      ''metadata'' \<notin> fst ` set (insert_memory_binary_request_data space_id content_type metadata)) \<and>
   (m \<noteq> [] \<longrightarrow>
      map_of (insert_memory_payload space_id content content_type (Some m)) ''metadata'' = Some (JObj m) \<and>
      map_of (insert_memory_binary_request_data space_id content_type (Some m)) ''metadata'' = Some (JObj m)) \<and>
   insert_memory T space_id content content_type (Some []) w =
     insert_memory T space_id content content_type None w \<and>
   insert_memory_binary dumps T space_id content_bytes content_type (Some []) w =
     insert_memory_binary dumps T space_id content_bytes content_type None w"
proof -
  have a: "sent (snd (insert_memory T space_id content content_type metadata w)) =
     sent w @ [client_post_json ''/v1/memories''
                 (JObj (insert_memory_payload space_id content content_type metadata))]"
    unfolding insert_memory_def by (rule sent_snd_checked_json)
  have b: "sent (snd (insert_memory_binary dumps T space_id content_bytes content_type metadata w)) =
     sent w @ [client_post_multipart ''/v1/memories''
                 [(''request'', dumps (JObj (insert_memory_binary_request_data space_id content_type metadata)))]
                 [(''file'', ''upload'', content_bytes, content_type)]]"
    unfolding insert_memory_binary_def by (rule sent_snd_checked_json)
  have c: "metadata = None \<or> metadata = Some [] \<longrightarrow>
      ''metadata'' \<notin> fst ` set (insert_memory_payload space_id content content_type metadata) \<and>
      ''metadata'' \<notin> fst ` set (insert_memory_binary_request_data space_id content_type metadata)"
    by (auto simp: insert_memory_payload_def insert_memory_binary_request_data_def metadata_entry_def)
  have d: "m \<noteq> [] \<longrightarrow>
      map_of (insert_memory_payload space_id content content_type (Some m)) ''metadata'' = Some (JObj m) \<and>
      map_of (insert_memory_binary_request_data space_id content_type (Some m)) ''metadata'' = Some (JObj m)"
    by (simp add: insert_memory_payload_def insert_memory_binary_request_data_def metadata_entry_def)
  have e: "metadata_entry (Some []) = metadata_entry None"
    by (simp add: metadata_entry_def)
  have f: "insert_memory T space_id content content_type (Some []) w =
     insert_memory T space_id content content_type None w"
    by (simp only: insert_memory_def insert_memory_payload_def e)
  have g: "insert_memory_binary dumps T space_id content_bytes content_type (Some []) w =
     insert_memory_binary dumps T space_id content_bytes content_type None w"
    by (simp only: insert_memory_binary_def insert_memory_binary_request_data_def e)
  show ?thesis
    by (intro conjI) (fact a b c d f g)+
qed

theorem metadata_on_the_wire_witness:
  "(Some [] = (None :: (string \<times> json) list option) \<or> Some [] = Some ([] :: (string \<times> json) list)) \<and>
   insert_memory_payload ''test-space-id'' ''test content'' ''text/plain'' (Some []) =
     [(''spaceId'', JStr ''test-space-id''),
      (''originalContent'', JStr ''test content''),
      (''contentType'', JStr ''text/plain'')] \<and>
   ''metadata'' \<notin> fst ` set (insert_memory_payload ''test-space-id'' ''test content'' ''text/plain'' (Some [])) \<and>
   [(''key'', JStr ''value'')] \<noteq> [] \<and>
   map_of (insert_memory_binary_request_data ''test-space-id'' ''text/plain''
             (Some [(''key'', JStr ''value'')])) ''metadata'' =
     Some (JObj [(''key'', JStr ''value'')])"
  using metadata_on_the_wire [of scripted "''test-space-id''" "''test content''" "''text/plain''"
      "Some []" "start []" "\<lambda>j. []" "[]" "[(''key'', JStr ''value'')]"]
  by (simp add: insert_memory_payload_def metadata_entry_def)

subsection \<open>Fetching a space by id\<close>

text \<open>
  C6, as the claim states it, fails: a 2xx response whose body is not a JSON document
  (a 204 without content) makes \<open>get_space\<close> raise, although the status is 2xx.
\<close>

theorem get_space_raises_on_2xx_counterexample:
  "is_success no_content \<and>
   fst (get_space scripted ''test-space-id'' (start [no_content])) =
     Inl (JsonException JSONDecodeError)"
  by (simp add: get_space_def send_scripted checked_json_def raise_for_status_def
      response_json_def is_success_def no_content_def)

text \<open>
  C6, amended. Let \<open>response\<close> be the answer to the GET of \<^verbatim>\<open>/v1/spaces/{id}\<close>.
  On status 404 \<open>get_space\<close> returns \<^verbatim>\<open>None\<close> without raising; on any other non-2xx
  status it raises the request-failure error that carries the response (its status and
  body); on a 2xx status it returns the decoded body when \<^verbatim>\<open>response.json()\<close> decodes
  it, and otherwise leaves with the very exception \<^verbatim>\<open>response.json()\<close> raised
  (\<^verbatim>\<open>json.JSONDecodeError\<close> for a body that is not JSON, \<^verbatim>\<open>UnicodeDecodeError\<close> for
  one that is not UTF-8), which is never the request-failure error. It raises the
  request-failure error if and only if the status is non-2xx and not 404.
\<close>

theorem get_space_outcomes:
  assumes "send T (client_get (''/v1/spaces/'' @ quote space_id) []) w = (Inr response, w')"
  shows "get_space T space_id w =
       (if resp_status response = 404 then (Inr JNull, w')
        else if \<not> is_success response then (Inl (HTTPStatusError response), w')
        else case resp_json response of
               Inr space \<Rightarrow> (Inr space, w')
             | Inl e \<Rightarrow> (Inl (JsonException e), w')) \<and>
     ((\<exists>r. fst (get_space T space_id w) = Inl (HTTPStatusError r)) \<longleftrightarrow>
        \<not> is_success response \<and> resp_status response \<noteq> 404)"
  using assms
  by (auto simp: get_space_def checked_json_def raise_for_status_def response_json_def
      split: sum.splits)

theorem get_space_outcomes_witness:
  "send scripted (client_get (''/v1/spaces/'' @ quote ''test-space-id'') [])
     (start [not_utf8]) =
     (Inr not_utf8,
      \<lparr>server = [], sent = [client_get (''/v1/spaces/'' @ quote ''test-space-id'') []]\<rparr>) \<and>
   get_space scripted ''test-space-id'' (start [not_utf8]) =
     (Inl (JsonException UnicodeDecodeError),
      \<lparr>server = [], sent = [client_get (''/v1/spaces/'' @ quote ''test-space-id'') []]\<rparr>) \<and>
   \<not> (\<exists>r. fst (get_space scripted ''test-space-id'' (start [not_utf8])) =
          Inl (HTTPStatusError r))"
proof -
  have h: "send scripted (client_get (''/v1/spaces/'' @ quote ''test-space-id'') [])
     (start [not_utf8]) =
     (Inr not_utf8,
      \<lparr>server = [], sent = [client_get (''/v1/spaces/'' @ quote ''test-space-id'') []]\<rparr>)"
    by (rule send_scripted)
  show ?thesis
    using h get_space_outcomes [OF h] by (simp add: is_success_def not_utf8_def)
qed

subsection \<open>Resolving an embedder\<close>

lemma list_embedders_sent:
  "list_embedders T w = (r, w1) \<Longrightarrow> sent w1 = sent w @ [client_get ''/v1/embedders'' []]"
  by (auto simp: list_embedders_def split: prod.splits sum.splits dest: sent_checked_json)

lemma create_embedder_sent:
  "create_embedder T dn pt url mi dm key dt eid w = (r, w') \<Longrightarrow>
   sent w' = sent w @ [client_post_json ''/v1/embedders''
                        (JObj (create_embedder_payload dn pt url mi dm key dt eid))]"
  by (auto simp: create_embedder_def dest: sent_checked_json)

lemma list_embedders_scripted:
  "list_embedders scripted (start (ok_json (JObj kvs) # rs)) =
     (Inr (dict_get kvs ''embedders'' (JArr [])),
      \<lparr>server = rs, sent = [client_get ''/v1/embedders'' []]\<rparr>)"
  by (simp add: list_embedders_def send_scripted checked_json_def raise_for_status_def
      is_success_def response_json_def ok_json_def py_get_def)

lemma auto_create_no_key:
  assumes "\<not> getenv_truthy (env ''GOOGLE_API_KEY'')" "\<not> getenv_truthy (env ''GEMINI_API_KEY'')"
  shows "auto_create_google_embedder env T w = (Inl (ValueError no_key_message), w)"
  using assms by (auto simp: auto_create_google_embedder_def google_api_key_def getenv_truthy_def
      split: option.splits)

lemma auto_create_key:
  assumes "google_api_key env = Some key" "key \<noteq> []"
  shows "auto_create_google_embedder env T w =
     (case checked_json (send T (google_embedder_request key) w) of
               (Inl e, w') \<Rightarrow> (Inl e, w')
             | (Inr response, w') \<Rightarrow>
                 (case py_get response ''embedderId'' JNull of
                    Inl e \<Rightarrow> (Inl e, w')
                  | Inr new_id \<Rightarrow>
                      if \<not> truthy new_id
                      then (Inl (ValueError
                             ''Failed to auto-create Google embedder: no embedderId in response''), w')
                      else (Inr new_id, w')))"
  using assms
  by (simp add: auto_create_google_embedder_def create_embedder_def create_embedder_payload_def
      google_embedder_request_def GOOGLE_EMBEDDER_DISPLAY_NAME_def GOOGLE_EMBEDDER_PROVIDER_TYPE_def
      GOOGLE_EMBEDDER_ENDPOINT_URL_def GOOGLE_EMBEDDER_MODEL_ID_def GOOGLE_EMBEDDER_DIMENSIONALITY_def
      GOOGLE_EMBEDDER_DISTRIBUTION_TYPE_def)

lemma auto_create_key_sent:
  assumes "google_api_key env = Some key" "key \<noteq> []"
  shows "sent (snd (auto_create_google_embedder env T w)) = sent w @ [google_embedder_request key]"
  unfolding auto_create_key [OF assms]
  by (auto split: prod.splits sum.splits dest: sent_checked_json)

lemma auto_create_key_created:
  assumes "google_api_key env = Some key" "key \<noteq> []"
    and "send T (google_embedder_request key) w = (Inr response, w')"
    and "is_success response" "resp_json response = Inr (JObj created)"
    and "truthy (dict_get created ''embedderId'' JNull)"
  shows "auto_create_google_embedder env T w = (Inr (dict_get created ''embedderId'' JNull), w')"
  unfolding auto_create_key [OF assms(1,2)]
  using assms(3-)
  by (simp add: checked_json_def raise_for_status_def response_json_def py_get_def)

lemma google_key_env_key: "google_api_key google_key_env = Some ''test-google-key''"
  by (simp add: google_api_key_def google_key_env_def getenv_truthy_def)



text \<open>
  C3, as the claim states it, fails: the listing below is non-empty, but its first record
  has no \<^verbatim>\<open>embedderId\<close>; with a Google key in the environment \<open>ensure_embedder\<close>
  posts a creation request and returns the id of the embedder created.
\<close>

theorem ensure_embedder_first_without_id_counterexample:
  "fst (list_embedders scripted (start first_without_id)) =
     Inr (JArr [JObj [(''displayName'', JStr ''unnamed'')], JObj [(''embedderId'', JStr ''emb-2'')]]) \<and>
   ensure_embedder (\<lambda>ids. []) google_key_env scripted None (start first_without_id) =
     (Inr (JStr ''auto-created''),
      \<lparr>server = [],
         sent = [client_get ''/v1/embedders'' [], google_embedder_request ''test-google-key'']\<rparr>) \<and>
   creates_embedder (google_embedder_request ''test-google-key'')"
proof -
  have l: "list_embedders scripted (start first_without_id) =
     (Inr (JArr [JObj [(''displayName'', JStr ''unnamed'')], JObj [(''embedderId'', JStr ''emb-2'')]]),
      \<lparr>server = [ok_json (JObj [(''embedderId'', JStr ''auto-created'')])],
         sent = [client_get ''/v1/embedders'' []]\<rparr>)"
    by (simp add: first_without_id_def list_embedders_scripted dict_get_def)
  have c: "auto_create_google_embedder google_key_env scripted
             \<lparr>server = [ok_json (JObj [(''embedderId'', JStr ''auto-created'')])],
                sent = [client_get ''/v1/embedders'' []]\<rparr> =
           (Inr (JStr ''auto-created''),
            \<lparr>server = [],
               sent = [client_get ''/v1/embedders'' [], google_embedder_request ''test-google-key'']\<rparr>)"
    by (simp add: auto_create_key [OF google_key_env_key] send_def scripted_def checked_json_def
        raise_for_status_def is_success_def response_json_def ok_json_def py_get_def dict_get_def)
  have e: "ensure_embedder (\<lambda>ids. []) google_key_env scripted None (start first_without_id) =
     (Inr (JStr ''auto-created''),
      \<lparr>server = [],
         sent = [client_get ''/v1/embedders'' [], google_embedder_request ''test-google-key'']\<rparr>)"
    by (simp add: ensure_embedder_def l py_first_def py_get_def dict_get_def c)
  show ?thesis
    by (simp add: l e creates_embedder_def google_embedder_request_def client_post_json_def)
qed

text \<open>
  C3, amended. With no explicit embedder id, if the listing returns a non-empty list whose
  first record carries a non-empty \<^verbatim>\<open>embedderId\<close>, that id is returned, in the list
  order the service gave, and the only request issued is the listing: no embedder is
  created.
\<close>

theorem ensure_embedder_first_wins:
  assumes "list_embedders T w = (Inr (JArr (first # others)), w1)"
    and "py_get first ''embedderId'' JNull = Inr eid"
    and "truthy eid"
  shows "ensure_embedder str_of env T None w = (Inr eid, w1) \<and>
         issued w w1 = [client_get ''/v1/embedders'' []] \<and>
         \<not> list_ex creates_embedder (issued w w1)"
proof -
  have s: "issued w w1 = [client_get ''/v1/embedders'' []]"
    using assms(1) by (auto dest: list_embedders_sent intro: issued_append)
  show ?thesis
    using assms s
    by (simp add: ensure_embedder_def py_first_def creates_embedder_def client_get_def)
qed

theorem ensure_embedder_first_wins_witness:
  "list_embedders scripted (start one_embedder) =
     (Inr (JArr [JObj [(''embedderId'', JStr ''valid-emb''), (''name'', JStr ''Valid Embedder'')]]),
      \<lparr>server = [], sent = [client_get ''/v1/embedders'' []]\<rparr>) \<and>
   py_get (JObj [(''embedderId'', JStr ''valid-emb''), (''name'', JStr ''Valid Embedder'')])
     ''embedderId'' JNull = Inr (JStr ''valid-emb'') \<and>
   truthy (JStr ''valid-emb'') \<and>
   ensure_embedder (\<lambda>ids. []) Map.empty scripted None (start one_embedder) =
     (Inr (JStr ''valid-emb''), \<lparr>server = [], sent = [client_get ''/v1/embedders'' []]\<rparr>)"
proof -
  have l: "list_embedders scripted (start one_embedder) =
     (Inr (JArr [JObj [(''embedderId'', JStr ''valid-emb''), (''name'', JStr ''Valid Embedder'')]]),
      \<lparr>server = [], sent = [client_get ''/v1/embedders'' []]\<rparr>)"
    by (simp add: one_embedder_def list_embedders_scripted dict_get_def)
  have g: "py_get (JObj [(''embedderId'', JStr ''valid-emb''), (''name'', JStr ''Valid Embedder'')])
     ''embedderId'' JNull = Inr (JStr ''valid-emb'')"
    by (simp add: py_get_def dict_get_def)
  have t: "truthy (JStr ''valid-emb'')"
    by simp
  show ?thesis
    using l g t ensure_embedder_first_wins [OF l g t, where str_of = "\<lambda>ids. []" and env = Map.empty]
    by simp
qed

text \<open>
  C4. With no explicit embedder id and an empty listing: if neither
  \<^verbatim>\<open>GOOGLE_API_KEY\<close> nor \<^verbatim>\<open>GEMINI_API_KEY\<close> is set (has a non-empty value, as
  \<^verbatim>\<open>os.getenv(..) or os.getenv(..)\<close> reads it and as the unit tests unset them),
  \<open>ensure_embedder\<close> fails with the descriptive \<^verbatim>\<open>ValueError\<close> and issues nothing
  but the listing. If \<^verbatim>\<open>GOOGLE_API_KEY\<close> is set, or it is not and
  \<^verbatim>\<open>GEMINI_API_KEY\<close> is, exactly one creation request follows the listing: the POST
  of the fixed profile (display name and model id gemini-embedding-001, provider type
  OPENAI, the Google endpoint, dimensionality 1536, distribution DENSE) with that key;
  and when the service answers it with the record of the embedder created, the id in that
  record is returned.
\<close>

theorem ensure_embedder_auto_create:
  assumes "list_embedders T w = (Inr (JArr []), w1)"
  shows "(\<not> getenv_truthy (env ''GOOGLE_API_KEY'') \<and> \<not> getenv_truthy (env ''GEMINI_API_KEY'') \<longrightarrow>
            ensure_embedder str_of env T None w = (Inl (ValueError no_key_message), w1) \<and>
            issued w w1 = [client_get ''/v1/embedders'' []] \<and>
            \<not> list_ex creates_embedder (issued w w1)) \<and>
         (key \<noteq> [] \<and> (env ''GOOGLE_API_KEY'' = Some key \<or>
                        \<not> getenv_truthy (env ''GOOGLE_API_KEY'') \<and> env ''GEMINI_API_KEY'' = Some key) \<longrightarrow>
            issued w (snd (ensure_embedder str_of env T None w)) =
              [client_get ''/v1/embedders'' [], google_embedder_request key] \<and>
            length (filter creates_embedder (issued w (snd (ensure_embedder str_of env T None w)))) = 1 \<and>
            (send T (google_embedder_request key) w1 = (Inr response, w2) \<and>
             is_success response \<and> resp_json response = Inr (JObj created) \<and>
             truthy (dict_get created ''embedderId'' JNull) \<longrightarrow>
               ensure_embedder str_of env T None w = (Inr (dict_get created ''embedderId'' JNull), w2)))"
proof -
  have e: "ensure_embedder str_of env T None w = auto_create_google_embedder env T w1"
    using assms by (simp add: ensure_embedder_def)
  have s: "sent w1 = sent w @ [client_get ''/v1/embedders'' []]"
    using assms by (rule list_embedders_sent)
  have k: "google_api_key env = Some key"
    if "env ''GOOGLE_API_KEY'' = Some key \<or>
          \<not> getenv_truthy (env ''GOOGLE_API_KEY'') \<and> env ''GEMINI_API_KEY'' = Some key" "key \<noteq> []"
    using that by (auto simp: google_api_key_def getenv_truthy_def)
  show ?thesis
  proof (intro conjI impI)
    assume "\<not> getenv_truthy (env ''GOOGLE_API_KEY'') \<and> \<not> getenv_truthy (env ''GEMINI_API_KEY'')"
    then show "ensure_embedder str_of env T None w = (Inl (ValueError no_key_message), w1)"
      by (simp add: e auto_create_no_key)
  next
    show i: "issued w w1 = [client_get ''/v1/embedders'' []]"
      using s by (rule issued_append)
    show "\<not> list_ex creates_embedder (issued w w1)"
      by (simp add: i creates_embedder_def client_get_def)
  next
    assume a: "key \<noteq> [] \<and> (env ''GOOGLE_API_KEY'' = Some key \<or>
                        \<not> getenv_truthy (env ''GOOGLE_API_KEY'') \<and> env ''GEMINI_API_KEY'' = Some key)"
    then have g: "google_api_key env = Some key" and n: "key \<noteq> []"
      using k by blast+
    show j: "issued w (snd (ensure_embedder str_of env T None w)) =
              [client_get ''/v1/embedders'' [], google_embedder_request key]"
      by (rule issued_append) (simp add: e auto_create_key_sent [OF g n] s)
    show "length (filter creates_embedder (issued w (snd (ensure_embedder str_of env T None w)))) = 1"
      by (simp add: j creates_embedder_def client_get_def google_embedder_request_def
          client_post_json_def)
    assume "send T (google_embedder_request key) w1 = (Inr response, w2) \<and>
             is_success response \<and> resp_json response = Inr (JObj created) \<and>
             truthy (dict_get created ''embedderId'' JNull)"
    then show "ensure_embedder str_of env T None w = (Inr (dict_get created ''embedderId'' JNull), w2)"
      by (simp add: e auto_create_key_created [OF g n])
  qed
qed

theorem ensure_embedder_auto_create_witness:
  "list_embedders scripted (start no_embedders) =
     (Inr (JArr []),
      \<lparr>server = [ok_json (JObj [(''embedderId'', JStr ''new-emb'')])],
         sent = [client_get ''/v1/embedders'' []]\<rparr>) \<and>
   \<not> getenv_truthy (empty_keys_env ''GOOGLE_API_KEY'') \<and>
   \<not> getenv_truthy (empty_keys_env ''GEMINI_API_KEY'') \<and>
   fst (ensure_embedder (\<lambda>ids. []) empty_keys_env scripted None (start no_embedders)) =
     Inl (ValueError no_key_message) \<and>
   google_key_env ''GOOGLE_API_KEY'' = Some ''test-google-key'' \<and>
   ensure_embedder (\<lambda>ids. []) google_key_env scripted None (start no_embedders) =
     (Inr (JStr ''new-emb''),
      \<lparr>server = [],
         sent = [client_get ''/v1/embedders'' [], google_embedder_request ''test-google-key'']\<rparr>) \<and>
   \<not> getenv_truthy (gemini_key_env ''GOOGLE_API_KEY'') \<and>
   gemini_key_env ''GEMINI_API_KEY'' = Some ''test-gemini-key'' \<and>
   ensure_embedder (\<lambda>ids. []) gemini_key_env scripted None (start no_embedders) =
     (Inr (JStr ''new-emb''),
      \<lparr>server = [],
         sent = [client_get ''/v1/embedders'' [], google_embedder_request ''test-gemini-key'']\<rparr>)"
proof -
  let ?w1 = "\<lparr>server = [ok_json (JObj [(''embedderId'', JStr ''new-emb'')])],
         sent = [client_get ''/v1/embedders'' []]\<rparr>"
  have l: "list_embedders scripted (start no_embedders) = (Inr (JArr []), ?w1)"
    by (simp add: no_embedders_def list_embedders_scripted dict_get_def)
  have s: "send scripted (google_embedder_request key) ?w1 =
      (Inr (ok_json (JObj [(''embedderId'', JStr ''new-emb'')])),
       \<lparr>server = [], sent = [client_get ''/v1/embedders'' [], google_embedder_request key]\<rparr>)" for key
    by (simp add: send_def scripted_def)
  have r: "is_success (ok_json (JObj [(''embedderId'', JStr ''new-emb'')])) \<and>
           resp_json (ok_json (JObj [(''embedderId'', JStr ''new-emb'')])) =
             Inr (JObj [(''embedderId'', JStr ''new-emb'')]) \<and>
           truthy (dict_get [(''embedderId'', JStr ''new-emb'')] ''embedderId'' JNull) \<and>
           dict_get [(''embedderId'', JStr ''new-emb'')] ''embedderId'' JNull = JStr ''new-emb''"
    by (simp add: is_success_def ok_json_def dict_get_def)
  have e: "\<not> getenv_truthy (empty_keys_env ''GOOGLE_API_KEY'') \<and>
           \<not> getenv_truthy (empty_keys_env ''GEMINI_API_KEY'')"
    by (simp add: empty_keys_env_def getenv_truthy_def)
  have g: "google_key_env ''GOOGLE_API_KEY'' = Some ''test-google-key''"
    by (simp add: google_key_env_def)
  have m: "\<not> getenv_truthy (gemini_key_env ''GOOGLE_API_KEY'') \<and>
           gemini_key_env ''GEMINI_API_KEY'' = Some ''test-gemini-key''"
    by (simp add: gemini_key_env_def getenv_truthy_def)
  show ?thesis
    using l e g m r s [of "''test-google-key''"] s [of "''test-gemini-key''"]
      ensure_embedder_auto_create [OF l, where env = empty_keys_env and str_of = "\<lambda>ids. []"]
      ensure_embedder_auto_create [OF l, where key = "''test-google-key''" and env = google_key_env
        and str_of = "\<lambda>ids. []"
        and response = "ok_json (JObj [(''embedderId'', JStr ''new-emb'')])"
        and ?w2.0 = "\<lparr>server = [], sent = [client_get ''/v1/embedders'' [], google_embedder_request ''test-google-key'']\<rparr>"
        and created = "[(''embedderId'', JStr ''new-emb'')]"]
      ensure_embedder_auto_create [OF l, where key = "''test-gemini-key''" and env = gemini_key_env
        and str_of = "\<lambda>ids. []"
        and response = "ok_json (JObj [(''embedderId'', JStr ''new-emb'')])"
        and ?w2.0 = "\<lparr>server = [], sent = [client_get ''/v1/embedders'' [], google_embedder_request ''test-gemini-key'']\<rparr>"
        and created = "[(''embedderId'', JStr ''new-emb'')]"]
    by simp
qed

subsection \<open>Listing spaces page by page\<close>




text \<open>
  The loop returns whenever the service cannot hand out next tokens forever: a measure of
  the server state that decreases with every response carrying a next token is enough,
  whatever else the service answers.
\<close>

lemma list_spaces_returns:
  assumes "\<And>s req r s'. T s req = (Some r, s') \<Longrightarrow> has_next_token r \<Longrightarrow> m s' < (m s :: nat)"
  shows "\<exists>res. list_spaces_loop T name all_spaces next_token w = Some res"
proof (induction "m (server w)" arbitrary: all_spaces next_token w rule: less_induct)
  case less
  let ?req = "client_get ''/v1/spaces'' (list_spaces_params name next_token)"
  show ?case
  proof (cases "T (server w) ?req")
    case (Pair ro s')
    show ?thesis
    proof (cases ro)
      case None
      then show ?thesis
        using Pair by (subst list_spaces_loop.simps) (simp add: send_def checked_json_def)
    next
      case (Some r)
      let ?w' = "\<lparr>server = s', sent = sent w @ [?req]\<rparr>"
      have s: "send T ?req w = (Inr r, ?w')"
        using Pair Some by (simp add: send_def)
      show ?thesis
      proof (cases "has_next_token r")
        case True
        then have "m s' < m (server w)"
          using assms Pair Some by blast
        then have "\<exists>res. list_spaces_loop T name acc tok ?w' = Some res" for acc tok
          using less [of ?w' acc tok] by simp
        then show ?thesis
          using s True
          by (subst list_spaces_loop.simps)
             (auto simp: checked_json_def raise_for_status_def response_json_def py_get_def
                has_next_token_def split: option.splits json.splits sum.splits)
      next
        case False
        then show ?thesis
          using s
          by (subst list_spaces_loop.simps)
             (auto simp: checked_json_def raise_for_status_def response_json_def py_get_def
                has_next_token_def split: option.splits json.splits sum.splits)
      qed
    qed
  qed
qed

lemma list_spaces_terminates:
  assumes "\<And>s req r s'. T s req = (Some r, s') \<Longrightarrow> has_next_token r \<Longrightarrow> m s' < (m s :: nat)"
  shows "\<exists>res. list_spaces T name w = Some res"
  unfolding list_spaces_def using assms by (rule list_spaces_returns)

text \<open>Whatever its outcome, a listing that returns has only sent GETs of \<^verbatim>\<open>/v1/spaces\<close>.\<close>

lemma list_spaces_only_gets:
  assumes "list_spaces_loop T name all_spaces next_token w = Some y"
  shows "\<exists>reqs. sent (snd y) = sent w @ reqs \<and> (\<forall>q \<in> set reqs. req_method q = GET \<and> req_url q = ''/v1/spaces'')"
proof (rule list_spaces_loop.raw_induct
    [where P = "\<lambda>T name all_spaces next_token w y.
       \<exists>reqs. sent (snd y) = sent w @ reqs \<and> (\<forall>q \<in> set reqs. req_method q = GET \<and> req_url q = ''/v1/spaces'')",
     OF _ assms], goal_cases)
  case (1 loop T name all_spaces next_token w y)
  let ?req = "client_get ''/v1/spaces'' (list_spaces_params name next_token)"
  obtain r w1 where c: "checked_json (send T ?req w) = (r, w1)"
    by (cases "checked_json (send T ?req w)")
  have s: "sent w1 = sent w @ [?req]"
    using c by (rule sent_checked_json)
  have g: "req_method ?req = GET \<and> req_url ?req = ''/v1/spaces''"
    by (simp add: client_get_def)
  show ?case
  proof (cases "snd y = w1")
    case True
    then show ?thesis
      using s g by (intro exI [of _ "[?req]"]) simp
  next
    case False
    then obtain acc tok where "loop T name acc tok w1 = Some y"
      using 1(2) c by (auto split: sum.splits if_splits)
    then obtain reqs where "sent (snd y) = sent w1 @ reqs"
      "\<forall>q \<in> set reqs. req_method q = GET \<and> req_url q = ''/v1/spaces''"
      using 1(1) by blast
    then show ?thesis
      using s g by (intro exI [of _ "?req # reqs"]) simp
  qed
qed

text \<open>
  A service that answers every page request with a page, and whose state has a measure
  that decreases with every next token it hands out, gives a finite run of pages from any
  world and cursor.
\<close>

lemma paging_service_paged:
  assumes page: "\<And>s req. \<exists>r s' data page. T s req = (Some r, s') \<and> is_success r \<and>
                    resp_json r = Inr (JObj data) \<and>
                    py_iter (dict_get data ''spaces'' (JArr [])) = Inr page"
    and less: "\<And>s req r s'. T s req = (Some r, s') \<Longrightarrow> has_next_token r \<Longrightarrow> m s' < (m s :: nat)"
  shows "\<exists>pages w'. paged T name next_token w pages w'"
proof (induction "m (server w)" arbitrary: next_token w rule: less_induct)
  case less
  let ?req = "client_get ''/v1/spaces'' (list_spaces_params name next_token)"
  obtain r s' data page where t: "T (server w) ?req = (Some r, s')" "is_success r"
    "resp_json r = Inr (JObj data)" "py_iter (dict_get data ''spaces'' (JArr [])) = Inr page"
    using page [of "server w" ?req] by blast
  let ?w' = "\<lparr>server = s', sent = sent w @ [?req]\<rparr>"
  have s: "send T ?req w = (Inr r, ?w')"
    using t(1) by (simp add: send_def)
  show ?case
  proof (cases "truthy (dict_get data ''nextToken'' JNull)")
    case False
    then have "paged T name next_token w [page] ?w'"
      using s t by (intro paged.last_page)
    then show ?thesis by blast
  next
    case True
    then have "has_next_token r"
      using t by (simp add: has_next_token_def)
    then have "m s' < m (server w)"
      using assms(2) t(1) by blast
    then obtain pages w'' where "paged T name (dict_get data ''nextToken'' JNull) ?w' pages w''"
      using less.hyps [of ?w' "dict_get data ''nextToken'' JNull"] by auto
    then have "paged T name next_token w (page # pages) w''"
      using s t True by (intro paged.next_page)
    then show ?thesis by blast
  qed
qed



subsection \<open>Retrieval of memories\<close>

text \<open>
  When \<^verbatim>\<open>json.loads\<close> fails with nothing but \<^verbatim>\<open>JSONDecodeError\<close> on the lines that
  are not blank, and every line that decodes is a JSON object, the loop keeps exactly the
  lines that are not blank, decode, and have the key \<^verbatim>\<open>retrievedItem\<close>, in their order.
\<close>

lemma collect_chunks_objects:
  assumes "\<And>line v. line \<in> set lines \<Longrightarrow> loads line = Inr v \<Longrightarrow> \<exists>kvs. v = JObj kvs"
    and "\<And>line e. line \<in> set lines \<Longrightarrow> loads line = Inl e \<Longrightarrow> e = JSONDecodeError"
  shows "collect_chunks loads chunks lines =
     Inr (chunks @ List.map_filter
        (\<lambda>line. if strip line = [] then None
                else (case loads line of
                        Inr (JObj kvs) \<Rightarrow>
                          if ''retrievedItem'' \<in> fst ` set kvs then Some (JObj kvs) else None
                      | _ \<Rightarrow> None)) lines)"
  using assms
proof (induction lines arbitrary: chunks)
  case Nil
  then show ?case by (simp add: List.map_filter_simps)
next
  case (Cons line lines)
  have t: "\<And>l v. l \<in> set lines \<Longrightarrow> loads l = Inr v \<Longrightarrow> \<exists>kvs. v = JObj kvs"
    using Cons.prems(1) by auto
  have u: "\<And>l e. l \<in> set lines \<Longrightarrow> loads l = Inl e \<Longrightarrow> e = JSONDecodeError"
    using Cons.prems(2) by auto
  note ih = Cons.IH [OF t u]
  show ?case
  proof (cases "loads line")
    case (Inl e)
    then have "e = JSONDecodeError"
      using Cons.prems(2) [of line e] by simp
    then show ?thesis
      using Inl by (simp add: ih List.map_filter_simps)
  next
    case (Inr v)
    then obtain kvs where "v = JObj kvs"
      using Cons.prems(1) [of line v] by auto
    then show ?thesis
      using Inr by (simp add: ih List.map_filter_simps py_in_def)
  qed
qed

lemma retrieve_memories_objects:
  assumes "send T (retrieve_request api_key query space_ids request_size) w = (Inr response, w')"
    and "is_success response"
    and "\<And>line v. line \<in> set (split_lines (strip (resp_text response))) \<Longrightarrow>
           loads line = Inr v \<Longrightarrow> \<exists>kvs. v = JObj kvs"
    and "\<And>line e. line \<in> set (split_lines (strip (resp_text response))) \<Longrightarrow>
           loads line = Inl e \<Longrightarrow> e = JSONDecodeError"
  shows "retrieve_memories loads api_key T query space_ids request_size w =
     (Inr (List.map_filter
        (\<lambda>line. if strip line = [] then None
                else (case loads line of
                        Inr (JObj kvs) \<Rightarrow>
                          if ''retrievedItem'' \<in> fst ` set kvs then Some (JObj kvs) else None
                      | _ \<Rightarrow> None)) (split_lines (strip (resp_text response)))), w')"
  using assms(1,2) collect_chunks_objects [of "split_lines (strip (resp_text response))" loads "[]", OF assms(3,4)]
  by (simp add: retrieve_memories_def raise_for_status_def)

text \<open>
  An exception of \<^verbatim>\<open>json.loads\<close> other than \<^verbatim>\<open>JSONDecodeError\<close>, on a line that is not
  blank, is not caught: it ends the loop and the call.
\<close>

lemma collect_chunks_uncaught:
  assumes "strip line \<noteq> []" "loads line = Inl e" "e \<noteq> JSONDecodeError"
  shows "collect_chunks loads chunks (line # lines) = Inl (JsonException e)"
  using assms by simp

text \<open>
  C5. The second line of this 2xx body is the JSON document \<^verbatim>\<open>null\<close>: it decodes and
  has no \<^verbatim>\<open>retrievedItem\<close> key, so the claim has it skipped and the first line
  returned. The membership test \<^verbatim>\<open>"retrievedItem" in tmp_dict\<close> on \<^verbatim>\<open>None\<close>
  raises \<^verbatim>\<open>TypeError\<close>, which the loop does not catch: the whole retrieval fails.
\<close>

theorem retrieve_memories_scalar_line:
  "fst (retrieve_memories sample_loads ''test-api-key'' scripted ''query''
          [''test-space-id''] 5 (start [ok_text scalar_body])) =
     Inl TypeError"
proof -
  have a: "strip scalar_body = scalar_body"
    by (simp add: strip_def lstrip_def rstrip_def isspace_def item_line_def scalar_body_def)
  have b: "split_lines scalar_body = [item_line, ''null'']"
    by (simp add: item_line_def split_lines_def scalar_body_def)
  have c: "strip item_line \<noteq> []" "strip ''null'' \<noteq> []"
    by (simp_all add: strip_def lstrip_def rstrip_def isspace_def item_line_def)
  have d: "sample_loads item_line = Inr (JObj [(''retrievedItem'', JObj [])])"
    "sample_loads ''null'' = Inr JNull"
    by (simp_all add: sample_loads_def item_line_def status_line_def)
  have e: "collect_chunks sample_loads [] [item_line, ''null''] = Inl TypeError"
    using c d by (simp add: py_in_def)
  show ?thesis
    by (simp add: retrieve_memories_def send_scripted raise_for_status_def is_success_def
        ok_text_def a b e del: collect_chunks.simps)
qed

subsection \<open>Deleting a space\<close>

text \<open>
  C8. \<^verbatim>\<open>client.delete_space(id)\<close>, as the unit test and the cleanup fixtures call it,
  is an attribute lookup that fails: the class defines no such method.
\<close>

theorem delete_space_is_no_attribute:
  "getattr ''delete_space'' = Inl AttributeError \<and> getattr ''get_space'' = Inr ''get_space''"
  by (simp add: getattr_def GoodmemClient_attributes_def)

subsection \<open>Resolving a space from an id and a name\<close>

text \<open>
  C1. Take a resolution that is not answered from the cache, with an effective id and an
  effective name, and let the listing filtered by that name succeed. If the record it
  returns for the name (the match, the first of the listing) has an id that differs from
  the given id, the resolution fails with the conflict error
  \<^verbatim>\<open>id and name refer to different spaces\<close>: neither the id nor the name is preferred.
  If the listing returns no record, it fails with
  \<^verbatim>\<open>name does not match any existing space\<close>. In both cases the listing is the only
  remote operation invoked: no space is created, and nothing is cached.
\<close>

theorem id_and_name_must_agree:
  assumes "cache key = None"
    and "effective (explicit_id q) (env_id q) = Some sid"
    and "effective (explicit_name q) (env_name q) = Some name"
    and "list_spaces_named R name w = (Inr found, w1)"
  shows "(\<forall>match others. found = match # others \<and> id_of_space match \<noteq> sid \<longrightarrow>
            get_or_create_space R q key cache w =
              ((Inl IdAndNameDiffer, w1, [ListSpaces name]), cache)) \<and>
         (found = [] \<longrightarrow>
            get_or_create_space R q key cache w =
              ((Inl NameMatchesNoSpace, w1, [ListSpaces name]), cache)) \<and>
         failure_message IdAndNameDiffer = ''id and name refer to different spaces'' \<and>
         failure_message NameMatchesNoSpace = ''name does not match any existing space''"
  using assms
  by (auto simp: get_or_create_space_def resolve_space_def failure_message_def)

theorem id_and_name_must_agree_witness:
  "list_spaces_named memory_remote ''my_space''
     [\<lparr>id_of_space = ''other-id'', name_of_space = ''my_space''\<rparr>] =
     (Inr [\<lparr>id_of_space = ''other-id'', name_of_space = ''my_space''\<rparr>],
      [\<lparr>id_of_space = ''other-id'', name_of_space = ''my_space''\<rparr>]) \<and>
   id_of_space \<lparr>id_of_space = ''other-id'', name_of_space = ''my_space''\<rparr> \<noteq> ''wrong-id'' \<and>
   get_or_create_space memory_remote (both_given ''wrong-id'' ''my_space'') ''test-user'' Map.empty
     [\<lparr>id_of_space = ''other-id'', name_of_space = ''my_space''\<rparr>] =
     ((Inl IdAndNameDiffer, [\<lparr>id_of_space = ''other-id'', name_of_space = ''my_space''\<rparr>],
       [ListSpaces ''my_space'']), Map.empty) \<and>
   get_or_create_space memory_remote (both_given ''some-id'' ''nonexistent_space'') ''test-user'' Map.empty
     [\<lparr>id_of_space = ''other-id'', name_of_space = ''my_space''\<rparr>] =
     ((Inl NameMatchesNoSpace, [\<lparr>id_of_space = ''other-id'', name_of_space = ''my_space''\<rparr>],
       [ListSpaces ''nonexistent_space'']), Map.empty)"
proof -
  let ?w = "[\<lparr>id_of_space = ''other-id'', name_of_space = ''my_space''\<rparr>]"
  have i: "effective (explicit_id (both_given sid name)) (env_id (both_given sid name)) = Some sid"
    and n: "effective (explicit_name (both_given sid name)) (env_name (both_given sid name)) = Some name"
    for sid name
    by (simp_all add: effective_def both_given_def)
  have l1: "list_spaces_named memory_remote ''my_space'' ?w = (Inr ?w, ?w)"
    by (simp add: memory_remote_def)
  have l2: "list_spaces_named memory_remote ''nonexistent_space'' ?w = (Inr [], ?w)"
    by (simp add: memory_remote_def)
  show ?thesis
    using id_and_name_must_agree [where cache = Map.empty and key = "''test-user''"
        and q = "both_given ''wrong-id'' ''my_space''" and sid = "''wrong-id''"
        and name = "''my_space''" and R = memory_remote and w = ?w and found = ?w and ?w1.0 = ?w]
      id_and_name_must_agree [where cache = Map.empty and key = "''test-user''"
        and q = "both_given ''some-id'' ''nonexistent_space''" and sid = "''some-id''"
        and name = "''nonexistent_space''" and R = memory_remote and w = ?w and found = "[]"
        and ?w1.0 = ?w]
    by (simp add: i n l1 l2)
qed

end
